theory Spec2Isabelle
  imports Complex_Main
begin

section \<open>Numbers, errors and the infinity sentinel\<close>

text \<open>
  The projection engine of \<^verbatim>\<open>app.py\<close> is a handful of pure functions over Python numbers.
  Python floats are modelled as exact reals, parameters annotated \<^verbatim>\<open>int\<close> as integers,
  converted where Python promotes them. Where the rounding of double precision decides a
  property, the function is given a second time with every operation rounded (last section of
  the definitions). Overflow and NaN are outside the model.
  \<^verbatim>\<open>raise ValueError(msg)\<close> is the left injection of a sum, \<^verbatim>\<open>float('inf')\<close> a constructor
  of its own, and \<^verbatim>\<open>None\<close> the \<open>None\<close> of an option. Reading a variable that has not been
  assigned raises \<^verbatim>\<open>NameError\<close>, kept with the name.
\<close>

datatype error = ValueError string | NameError string

datatype pyfloat = Finite real | PosInf

text \<open>
  Python's \<^verbatim>\<open><=\<close> and \<^verbatim>\<open><\<close> on floats, with \<^verbatim>\<open>float('inf')\<close> above every finite value.
\<close>

fun float_le :: "pyfloat \<Rightarrow> pyfloat \<Rightarrow> bool" where
  "float_le (Finite a) (Finite b) = (a \<le> b)"
| "float_le (Finite a) PosInf = True"
| "float_le PosInf (Finite b) = False"
| "float_le PosInf PosInf = True"

fun float_lt :: "pyfloat \<Rightarrow> pyfloat \<Rightarrow> bool" where
  "float_lt (Finite a) (Finite b) = (a < b)"
| "float_lt (Finite a) PosInf = True"
| "float_lt PosInf (Finite b) = False"
| "float_lt PosInf PosInf = False"

section \<open>The formulas of app.py\<close>

definition calculate_avg_ticket_price :: "real \<Rightarrow> real \<Rightarrow> real \<Rightarrow> error + real" where
  "calculate_avg_ticket_price ticket_price_pre ticket_price_post sales_mix_pre =
     (if \<not> (0 \<le> sales_mix_pre \<and> sales_mix_pre \<le> 100)
      then Inl (ValueError ''Pre-show sales mix must be between 0 and 100'')
      else if ticket_price_pre < 0 \<or> ticket_price_post < 0
      then Inl (ValueError ''Ticket prices cannot be negative'')
      else (let sales_mix_post = 100 - sales_mix_pre
            in Inr ((ticket_price_pre * sales_mix_pre / 100)
                    + (ticket_price_post * sales_mix_post / 100))))"

definition calculate_total_fixed_costs :: "real \<Rightarrow> int \<Rightarrow> error + real" where
  "calculate_total_fixed_costs fixed_costs events_per_month =
     (if fixed_costs < 0 then Inl (ValueError ''Fixed costs cannot be negative'')
      else if events_per_month < 0 then Inl (ValueError ''Events per month cannot be negative'')
      else Inr (fixed_costs * of_int events_per_month))"

definition calculate_projected_revenue :: "real \<Rightarrow> int \<Rightarrow> real \<Rightarrow> int \<Rightarrow> error + real" where
  "calculate_projected_revenue avg_ticket_price venue_capacity attendance_percentage events_per_month =
     (if \<not> (0 \<le> attendance_percentage \<and> attendance_percentage \<le> 100)
      then Inl (ValueError ''Attendance percentage must be between 0 and 100'')
      else if venue_capacity < 0 then Inl (ValueError ''Venue capacity cannot be negative'')
      else if events_per_month < 0 then Inl (ValueError ''Events per month cannot be negative'')
      else (let revenue_per_event =
                  avg_ticket_price * of_int venue_capacity * (attendance_percentage / 100)
            in Inr (revenue_per_event * of_int events_per_month)))"

definition calculate_projected_profit :: "real \<Rightarrow> real \<Rightarrow> real \<Rightarrow> int \<Rightarrow> real \<Rightarrow> error + real" where
  "calculate_projected_profit projected_revenue total_fixed_costs event_cost events_per_month ad_spend =
     (if list_ex (\<lambda>cost. cost < 0) [event_cost, of_int events_per_month, ad_spend]
      then Inl (ValueError ''Cost values cannot be negative'')
      else Inr (projected_revenue - total_fixed_costs
                - (event_cost * of_int events_per_month) - ad_spend))"

definition calculate_breakeven_roas :: "real \<Rightarrow> real \<Rightarrow> int \<Rightarrow> real \<Rightarrow> pyfloat" where
  "calculate_breakeven_roas total_fixed_costs event_cost events_per_month projected_revenue =
     (let breakeven_ad_spend = total_fixed_costs + (event_cost * of_int events_per_month)
      in if breakeven_ad_spend > 0 then Finite (projected_revenue / breakeven_ad_spend)
         else PosInf)"

definition calculate_current_roas :: "real \<Rightarrow> real \<Rightarrow> real option" where
  "calculate_current_roas projected_revenue ad_spend =
     (if ad_spend = 0 then None else Some (projected_revenue / ad_spend))"

definition calculate_current_cpp :: "real \<Rightarrow> int \<Rightarrow> real option" where
  "calculate_current_cpp ad_spend tickets_sold =
     (if tickets_sold = 0 then None else Some (ad_spend / of_int tickets_sold))"

definition calculate_breakeven_cpp :: "real \<Rightarrow> real \<Rightarrow> int \<Rightarrow> int \<Rightarrow> real \<Rightarrow> pyfloat" where
  "calculate_breakeven_cpp total_fixed_costs event_cost events_per_month venue_capacity
       attendance_percentage =
     (let breakeven_ad_spend = total_fixed_costs + (event_cost * of_int events_per_month);
          projected_tickets_sold =
            of_int venue_capacity * (attendance_percentage / 100) * of_int events_per_month
      in if projected_tickets_sold > 0 then Finite (breakeven_ad_spend / projected_tickets_sold)
         else PosInf)"

text \<open>
  \<^verbatim>\<open>calculate_threshold_metrics\<close> calls the three functions above; a \<^verbatim>\<open>ValueError\<close> of the
  revenue computation propagates to the caller.
\<close>

definition calculate_threshold_metrics ::
  "real \<Rightarrow> real \<Rightarrow> int \<Rightarrow> int \<Rightarrow> real \<Rightarrow> real \<Rightarrow> error + (pyfloat \<times> pyfloat)" where
  "calculate_threshold_metrics attendance_level avg_ticket_price venue_capacity events_per_month
       total_fixed_costs event_cost =
     (case calculate_projected_revenue avg_ticket_price venue_capacity attendance_level
             events_per_month of
        Inl e \<Rightarrow> Inl e
      | Inr revenue \<Rightarrow>
          (let roas = calculate_breakeven_roas total_fixed_costs event_cost events_per_month revenue;
               cpp = calculate_breakeven_cpp total_fixed_costs event_cost events_per_month
                       venue_capacity attendance_level
           in Inr (roas, cpp)))"

section \<open>The derivation chain and the threshold table\<close>

text \<open>
  The script derives its figures in one \<^verbatim>\<open>try\<close> block: average price, total fixed costs,
  revenue, profit, then the two break-even metrics. The first \<^verbatim>\<open>ValueError\<close> ends the block.
  The record holds the six module-level variables the block assigns.
\<close>

record metrics =
  avg_ticket_price :: real
  total_fixed_costs :: real
  projected_revenue :: real
  projected_profit :: real
  breakeven_roas :: pyfloat
  breakeven_cpp :: pyfloat

definition calculate_current_values ::
  "real \<Rightarrow> real \<Rightarrow> real \<Rightarrow> real \<Rightarrow> real \<Rightarrow> int \<Rightarrow> int \<Rightarrow> real \<Rightarrow> real \<Rightarrow> error + metrics" where
  "calculate_current_values fixed_costs event_cost ticket_price_pre ticket_price_post sales_mix_pre
       venue_capacity events_per_month attendance_percentage ad_spend =
     (case calculate_avg_ticket_price ticket_price_pre ticket_price_post sales_mix_pre of
        Inl e \<Rightarrow> Inl e
      | Inr avg \<Rightarrow>
     (case calculate_total_fixed_costs fixed_costs events_per_month of
        Inl e \<Rightarrow> Inl e
      | Inr tfc \<Rightarrow>
     (case calculate_projected_revenue avg venue_capacity attendance_percentage events_per_month of
        Inl e \<Rightarrow> Inl e
      | Inr revenue \<Rightarrow>
     (case calculate_projected_profit revenue tfc event_cost events_per_month ad_spend of
        Inl e \<Rightarrow> Inl e
      | Inr profit \<Rightarrow>
          Inr \<lparr> avg_ticket_price = avg,
                total_fixed_costs = tfc,
                projected_revenue = revenue,
                projected_profit = profit,
                breakeven_roas = calculate_breakeven_roas tfc event_cost events_per_month revenue,
                breakeven_cpp = calculate_breakeven_cpp tfc event_cost events_per_month
                                  venue_capacity attendance_percentage \<rparr>))))"

text \<open>
  After the chain the block builds the profit banner (one f-string). Its last placeholder reads
  the variable \<^verbatim>\<open>current_roas\<close>:
  \<^verbatim>\<open>"... below break-even ..." if current_roas is not None and current_roas < breakeven_roas
   else "... at or above break-even." if current_roas is not None else ""\<close>.
  The only assignment to \<^verbatim>\<open>current_roas\<close> in the script comes later in the same block, with
  the performance metrics, and a run of the script starts from a fresh namespace. A variable is
  therefore kept with its binding state, and reading an unbound one is the \<^verbatim>\<open>NameError\<close>
  Python raises.
\<close>

datatype 'a binding = Unbound | Bound 'a

definition roas_note :: "real option binding \<Rightarrow> pyfloat \<Rightarrow> error + string" where
  "roas_note current_roas be_roas =
     (case current_roas of
        Unbound \<Rightarrow> Inl (NameError ''current_roas'')
      | Bound None \<Rightarrow> Inr []
      | Bound (Some r) \<Rightarrow>
          Inr (if float_lt (Finite r) be_roas
               then ''Your current ROAS is below break-even. Consider increasing ad spend or attendance to reach profitability.''
               else ''Your current ROAS is at or above break-even.''))"

text \<open>
  The table loop appends one dictionary of three text cells per level of
  \<^verbatim>\<open>attendance_levels\<close>: \<^verbatim>\<open>f"{level}%"\<close>, \<^verbatim>\<open>f"{roas:.2f}x"\<close> and \<^verbatim>\<open>f"${cpp:.2f}"\<close>, with a
  fixed sign in place of \<^verbatim>\<open>float('inf')\<close>. Python's rendering of an integer and of a float
  with two decimals are parameters (\<open>fmt_d\<close>, \<open>fmt_2f\<close>); the sign is given by its bytes as they
  stand in the script.
\<close>

record threshold_row =
  attendance_level_text :: string
  breakeven_roas_text :: string
  breakeven_cpp_text :: string

definition infinity_text :: string where
  "infinity_text = [CHR 0xE2, CHR 0x80, CHR 0x9A, CHR 0xC3, CHR 0xA0, CHR 0xC3, CHR 0xBB]"

definition attendance_levels :: "int list" where
  "attendance_levels = [40, 50, 60, 70, 80, 90]"

definition threshold_cells ::
  "(int \<Rightarrow> string) \<Rightarrow> (real \<Rightarrow> string) \<Rightarrow> int \<Rightarrow> pyfloat \<Rightarrow> pyfloat \<Rightarrow> threshold_row" where
  "threshold_cells fmt_d fmt_2f l r c =
     \<lparr> attendance_level_text = fmt_d l @ ''%'',
       breakeven_roas_text = (case r of Finite x \<Rightarrow> fmt_2f x @ ''x'' | PosInf \<Rightarrow> infinity_text),
       breakeven_cpp_text = (case c of Finite x \<Rightarrow> ''$'' @ fmt_2f x | PosInf \<Rightarrow> infinity_text) \<rparr>"

fun threshold_loop ::
  "(int \<Rightarrow> string) \<Rightarrow> (real \<Rightarrow> string) \<Rightarrow> int list \<Rightarrow> real \<Rightarrow> int \<Rightarrow> int \<Rightarrow> real \<Rightarrow> real
     \<Rightarrow> threshold_row list \<Rightarrow> error + threshold_row list" where
  "threshold_loop fmt_d fmt_2f [] avg cap n tfc ec threshold_data = Inr threshold_data"
| "threshold_loop fmt_d fmt_2f (l # ls) avg cap n tfc ec threshold_data =
     (case calculate_threshold_metrics (of_int l) avg cap n tfc ec of
        Inl e \<Rightarrow> Inl e
      | Inr (r, c) \<Rightarrow>
          threshold_loop fmt_d fmt_2f ls avg cap n tfc ec
            (threshold_data @ [threshold_cells fmt_d fmt_2f l r c]))"

text \<open>
  The whole \<^verbatim>\<open>try\<close> block of the script, in the order of its statements: the chain, the
  banner with its read of \<^verbatim>\<open>current_roas\<close> (unbound at that point), the assignments of the
  two current metrics, and the table loop. The result is the table handed to
  \<^verbatim>\<open>st.dataframe\<close>, or the exception that ended the block, which the handlers below it show
  as an error message.
\<close>

definition calculation_block ::
  "(int \<Rightarrow> string) \<Rightarrow> (real \<Rightarrow> string) \<Rightarrow> real \<Rightarrow> real \<Rightarrow> real \<Rightarrow> real \<Rightarrow> real \<Rightarrow> int \<Rightarrow> int
     \<Rightarrow> real \<Rightarrow> real \<Rightarrow> int \<Rightarrow> error + threshold_row list" where
  "calculation_block fmt_d fmt_2f fixed_costs event_cost ticket_price_pre ticket_price_post
       sales_mix_pre venue_capacity events_per_month attendance_percentage ad_spend tickets_sold =
     (case calculate_current_values fixed_costs event_cost ticket_price_pre ticket_price_post
             sales_mix_pre venue_capacity events_per_month attendance_percentage ad_spend of
        Inl e \<Rightarrow> Inl e
      | Inr m \<Rightarrow>
     (case roas_note Unbound (breakeven_roas m) of
        Inl e \<Rightarrow> Inl e
      | Inr note \<Rightarrow>
          (let current_roas = Bound (calculate_current_roas (projected_revenue m) ad_spend);
               current_cpp = Bound (calculate_current_cpp ad_spend tickets_sold)
           in threshold_loop fmt_d fmt_2f attendance_levels (avg_ticket_price m) venue_capacity
                events_per_month (total_fixed_costs m) event_cost [])))"

section \<open>Saved scenarios\<close>

text \<open>
  \<^verbatim>\<open>save_scenario\<close> writes the timestamp into the dictionary it was handed and then stores
  that same object in the dictionary \<^verbatim>\<open>st.session_state.scenarios\<close>. Dictionaries are
  therefore objects in a store, addressed by reference; the scenario mapping is one of them, and
  its entries are references to the saved dictionaries. The clock reading
  \<^verbatim>\<open>datetime.now().strftime(...)\<close> is a parameter.
\<close>

type_synonym ref = nat

datatype field_value = FloatVal real | IntVal int | StrVal string | DictRef ref







section \<open>The stand-alone threshold script\<close>

text \<open>
  \<^verbatim>\<open>test_thresholds.py\<close> carries its own table function, with the ratio the other way round
  (total costs over revenue). \<open>threshold_entry\<close> is the body of its loop; its dictionary is kept
  as the list of its entries in insertion order, keyed by the level (the script's key is the
  text \<^verbatim>\<open>f"{attendance}%"\<close>).
\<close>

definition threshold_entry :: "real \<Rightarrow> real \<Rightarrow> int \<Rightarrow> real \<Rightarrow> real \<Rightarrow> real \<Rightarrow> real \<Rightarrow> pyfloat \<times> pyfloat" where
  "threshold_entry fixed_costs event_cost capacity ticket_price_pre ticket_price_post sales_mix_pre
       attendance =
     (let total_revenue = (of_int capacity * attendance / 100)
                          * ((ticket_price_pre * (sales_mix_pre / 100))
                             + (ticket_price_post * (1 - sales_mix_pre / 100)));
          total_costs = fixed_costs + event_cost;
          be_roas = (if total_revenue > 0 then Finite (total_costs / total_revenue) else PosInf);
          attendance_count = of_int capacity * attendance / 100;
          be_cpp = (if attendance_count > 0 then Finite (total_costs / attendance_count) else PosInf)
      in (be_roas, be_cpp))"

definition calculate_profitability_thresholds ::
  "real \<Rightarrow> real \<Rightarrow> int \<Rightarrow> real \<Rightarrow> real \<Rightarrow> real \<Rightarrow> error + (real \<times> pyfloat \<times> pyfloat) list" where
  "calculate_profitability_thresholds fixed_costs event_cost capacity ticket_price_pre
       ticket_price_post sales_mix_pre =
     (if capacity \<le> 0 then Inl (ValueError ''Capacity must be positive'')
      else if list_ex (\<lambda>price. price < 0) [ticket_price_pre, ticket_price_post]
      then Inl (ValueError ''Ticket prices cannot be negative'')
      else if \<not> (0 \<le> sales_mix_pre \<and> sales_mix_pre \<le> 100)
      then Inl (ValueError ''Sales mix must be between 0 and 100'')
      else Inr (map (\<lambda>attendance.
                  (attendance, threshold_entry fixed_costs event_cost capacity ticket_price_pre
                                 ticket_price_post sales_mix_pre attendance))
                [40, 50, 60, 70, 80, 90]))"

section \<open>The average price in double precision\<close>

text \<open>
  A Python float is a double: every arithmetic operation returns the double nearest to the
  exact result, ties going to the even significand. \<open>round_double\<close> is that rounding for 53
  significant bits, on the reals with no bound on the exponent (so overflow and underflow
  do not occur). \<open>binade x\<close> is the exponent \<open>e\<close> with \<open>2 ^ e \<le> \<bar>x\<bar> < 2 ^ (e + 1)\<close>.
\<close>

definition binade :: "real \<Rightarrow> int" where
  "binade x = \<lfloor>log 2 \<bar>x\<bar>\<rfloor>"

definition round_half_even :: "real \<Rightarrow> int" where
  "round_half_even y =
     (let f = \<lfloor>y\<rfloor>; d = y - of_int f
      in if d < 1 / 2 then f else if 1 / 2 < d then f + 1 else if even f then f else f + 1)"

definition round_double :: "real \<Rightarrow> real" where
  "round_double x =
     (if x = 0 then 0
      else (let quantum = 2 powr of_int (binade x - 52)
            in of_int (round_half_even (x / quantum)) * quantum))"

text \<open>
  \<^verbatim>\<open>calculate_avg_ticket_price\<close> once more, with each of its six operations rounded. The
  comparisons of the two checks are exact in doubles as well.
\<close>

definition calculate_avg_ticket_price_double :: "real \<Rightarrow> real \<Rightarrow> real \<Rightarrow> error + real" where
  "calculate_avg_ticket_price_double ticket_price_pre ticket_price_post sales_mix_pre =
     (if \<not> (0 \<le> sales_mix_pre \<and> sales_mix_pre \<le> 100)
      then Inl (ValueError ''Pre-show sales mix must be between 0 and 100'')
      else if ticket_price_pre < 0 \<or> ticket_price_post < 0
      then Inl (ValueError ''Ticket prices cannot be negative'')
      else (let sales_mix_post = round_double (100 - sales_mix_pre)
            in Inr (round_double
                      (round_double (round_double (ticket_price_pre * sales_mix_pre) / 100)
                       + round_double (round_double (ticket_price_post * sales_mix_post) / 100)))))"

section \<open>Properties\<close>

text \<open>
  C1. \<^verbatim>\<open>calculate_breakeven_roas\<close> forms the break-even ad spend
  \<open>total_fixed_costs + event_cost * events_per_month\<close>; it returns the unrounded quotient
  \<open>projected_revenue / breakeven_ad_spend\<close> when that sum is positive and the infinity
  sentinel when it is zero. The function is total: a zero denominator is a value, not an error.
\<close>

theorem calculate_breakeven_roas_spec:
  "(0 < t + c * of_int n \<longrightarrow>
      calculate_breakeven_roas t c n r = Finite (r / (t + c * of_int n)))
   \<and> (t + c * of_int n = 0 \<longrightarrow> calculate_breakeven_roas t c n r = PosInf)"
  by (simp add: calculate_breakeven_roas_def Let_def)

theorem calculate_breakeven_roas_spec_witness:
  "(0::real) < 5000 + 1000 * of_int 1
   \<and> calculate_breakeven_roas 5000 1000 1 2500 = Finite (5 / 12)
   \<and> (0::real) + 0 * of_int 3 = 0
   \<and> calculate_breakeven_roas 0 0 3 2500 = PosInf"
  using calculate_breakeven_roas_spec [of 5000 1000 1 2500]
        calculate_breakeven_roas_spec [of 0 0 3 2500]
  by simp

text \<open>
  C2. The scenario fixed_costs 5000, event_cost 1000, prices 25 and 50, sales mix 75,
  capacity 200, one event, attendance 40, no ad spend, no tickets sold: the chain yields an
  average price of 31.25, total fixed costs 5000, revenue 2500, break-even ROAS 2500/6000 and
  break-even CPP 6000/80 = 75. The two current metrics are absent.
\<close>

theorem derivation_chain_scenario:
  "calculate_current_values 5000 1000 25 50 75 200 1 40 0 =
     Inr \<lparr> avg_ticket_price = 31.25,
           total_fixed_costs = 5000,
           projected_revenue = 2500,
           projected_profit = - 3500,
           breakeven_roas = Finite (2500 / 6000),
           breakeven_cpp = Finite 75 \<rparr>
   \<and> (6000::real) / 80 = 75
   \<and> calculate_current_roas 2500 0 = None
   \<and> calculate_current_cpp 0 0 = None"
  by (simp add: calculate_current_values_def calculate_avg_ticket_price_def
        calculate_total_fixed_costs_def calculate_projected_revenue_def
        calculate_projected_profit_def calculate_breakeven_roas_def
        calculate_breakeven_cpp_def calculate_current_roas_def calculate_current_cpp_def Let_def)

text \<open>
  On the same figures the stand-alone script of \<^verbatim>\<open>test_thresholds.py\<close> agrees on the CPP of
  75 at 40 percent, and reports the inverse ratio 6000/2500 in its ROAS column.
\<close>

lemma threshold_script_scenario:
  "calculate_profitability_thresholds 5000 1000 200 25 50 75 =
     Inr [(40, Finite (12 / 5), Finite 75), (50, Finite (48 / 25), Finite 60),
          (60, Finite (8 / 5), Finite 50), (70, Finite (48 / 35), Finite (300 / 7)),
          (80, Finite (6 / 5), Finite (75 / 2)), (90, Finite (16 / 15), Finite (100 / 3))]"
  by (simp add: calculate_profitability_thresholds_def threshold_entry_def Let_def)

text \<open>
  C5. \<^verbatim>\<open>calculate_current_roas\<close> returns \<^verbatim>\<open>None\<close> when the ad spend is zero and
  revenue / ad spend otherwise; \<^verbatim>\<open>calculate_current_cpp\<close> returns \<^verbatim>\<open>None\<close> when no ticket
  was sold and ad spend / tickets sold otherwise. Neither raises, and the absent value is not
  the number zero.
\<close>

theorem current_metrics_spec:
  "(a = 0 \<longrightarrow> calculate_current_roas r a = None)
   \<and> (a \<noteq> 0 \<longrightarrow> calculate_current_roas r a = Some (r / a))
   \<and> (k = 0 \<longrightarrow> calculate_current_cpp b k = None)
   \<and> (k \<noteq> 0 \<longrightarrow> calculate_current_cpp b k = Some (b / of_int k))"
  by (simp add: calculate_current_roas_def calculate_current_cpp_def)

theorem current_metrics_spec_witness:
  "calculate_current_roas 2500 0 = None
   \<and> calculate_current_roas 2500 1000 = Some (5 / 2)
   \<and> calculate_current_cpp 1000 0 = None
   \<and> calculate_current_cpp 1000 80 = Some (25 / 2)"
  using current_metrics_spec [where a = 0 and r = 2500 and k = 0 and b = 1000]
        current_metrics_spec [where a = 1000 and r = 2500 and k = 80 and b = 1000]
  by simp

text \<open>
  C6. For non-negative prices and a pre-show sales mix between 0 and 100,
  \<^verbatim>\<open>calculate_avg_ticket_price\<close> returns
  \<open>pre * mix / 100 + post * (100 - mix) / 100\<close>; on every other input (a mix of 150, say) it
  raises \<^verbatim>\<open>ValueError\<close> and returns no value.
\<close>

theorem calculate_avg_ticket_price_spec:
  "(0 \<le> p \<and> 0 \<le> q \<and> 0 \<le> s \<and> s \<le> 100 \<longrightarrow>
      calculate_avg_ticket_price p q s = Inr (p * s / 100 + q * (100 - s) / 100))
   \<and> (\<not> (0 \<le> p \<and> 0 \<le> q \<and> 0 \<le> s \<and> s \<le> 100) \<longrightarrow>
      (\<exists>msg. calculate_avg_ticket_price p q s = Inl (ValueError msg)))"
  by (auto simp add: calculate_avg_ticket_price_def Let_def)

theorem calculate_avg_ticket_price_spec_witness:
  "calculate_avg_ticket_price 25 50 75 = Inr (125 / 4)
   \<and> isl (calculate_avg_ticket_price 25 50 150)
   \<and> isl (calculate_avg_ticket_price (- 1) 50 75)"
  using calculate_avg_ticket_price_spec [of 25 50 75]
        calculate_avg_ticket_price_spec [of 25 50 150]
        calculate_avg_ticket_price_spec [of "- 1" 50 75]
  by auto

section \<open>Attendance and the break-even metrics\<close>

text \<open>
  For a level within range and non-negative capacity and event count,
  \<^verbatim>\<open>calculate_threshold_metrics\<close> returns the two break-even metrics at the revenue of that
  level.
\<close>

lemma calculate_threshold_metrics_eq:
  assumes "0 \<le> l" "l \<le> 100" "0 \<le> k" "0 \<le> n"
  shows "calculate_threshold_metrics l v k n t c =
           Inr (calculate_breakeven_roas t c n (v * of_int k * (l / 100) * of_int n),
                calculate_breakeven_cpp t c n k l)"
  using assms
  by (simp add: calculate_threshold_metrics_def calculate_projected_revenue_def Let_def)

text \<open>
  Raising the attendance from 40 to 50 percent on the figures of the scenario above raises
  the break-even ROAS of \<^verbatim>\<open>app.py\<close> from 5/12 to 25/48: the ratio has the revenue on top.
\<close>

theorem breakeven_roas_increases_counterexample:
  "calculate_threshold_metrics 40 (125 / 4) 200 1 5000 1000 = Inr (Finite (5 / 12), Finite 75)
   \<and> calculate_threshold_metrics 50 (125 / 4) 200 1 5000 1000 = Inr (Finite (25 / 48), Finite 60)
   \<and> \<not> float_le (Finite (25 / 48)) (Finite (5 / 12))"
  by (simp add: calculate_threshold_metrics_def calculate_projected_revenue_def
        calculate_breakeven_roas_def calculate_breakeven_cpp_def Let_def)

text \<open>Helper facts: the CPP falls and the revenue, hence the ROAS, rises with attendance.\<close>

lemma breakeven_cpp_antimono:
  assumes "0 \<le> t" "0 \<le> c" "0 \<le> n" "0 \<le> k" "a \<le> a'"
  shows "float_le (calculate_breakeven_cpp t c n k a') (calculate_breakeven_cpp t c n k a)"
proof -
  let ?b = "t + c * of_int n"
  let ?d = "\<lambda>x. real_of_int k * (x / 100) * of_int n"
  have b: "0 \<le> ?b" using assms by simp
  have kn: "0 \<le> real_of_int k * of_int n" using assms by simp
  have "?d a' - ?d a = (real_of_int k * of_int n) * ((a' - a) / 100)"
    by (simp add: field_simps)
  moreover have "0 \<le> (real_of_int k * of_int n) * ((a' - a) / 100)"
    using assms(5) by (intro mult_nonneg_nonneg [OF kn]) simp
  ultimately have d: "?d a \<le> ?d a'" by linarith
  show ?thesis
  proof (cases "0 < ?d a")
    case True
    with d have pos': "0 < ?d a'" by linarith
    have "?b / ?d a' \<le> ?b / ?d a"
      by (rule divide_left_mono [OF d b]) (use True pos' in simp)
    with True pos' show ?thesis by (simp add: calculate_breakeven_cpp_def Let_def)
  next
    case False
    then show ?thesis
      by (cases "0 < ?d a'") (simp_all add: calculate_breakeven_cpp_def Let_def)
  qed
qed

lemma breakeven_roas_mono:
  assumes "r \<le> r'"
  shows "float_le (calculate_breakeven_roas t c n r) (calculate_breakeven_roas t c n r')"
  using assms by (simp add: calculate_breakeven_roas_def Let_def divide_right_mono)

lemma projected_revenue_mono:
  assumes "0 \<le> v" "0 \<le> k" "0 \<le> n" "a \<le> a'"
  shows "v * real_of_int k * (a / 100) * of_int n \<le> v * real_of_int k * (a' / 100) * of_int n"
proof -
  have "0 \<le> v * real_of_int k" using assms by simp
  then have "v * real_of_int k * (a / 100) \<le> v * real_of_int k * (a' / 100)"
    using assms(4) by (intro mult_left_mono) simp_all
  then show ?thesis using assms(3) by (intro mult_right_mono) simp_all
qed

text \<open>
  C3, amended. For non-negative costs, price, capacity and event count, and attendance
  levels \<open>a \<le> a'\<close> in [0,100]: the break-even CPP at \<open>a'\<close> is at most the one at \<open>a\<close>
  (non-increasing), and the break-even ROAS, being revenue over break-even ad spend, at \<open>a'\<close>
  is at least the one at \<open>a\<close> (non-decreasing).
\<close>

theorem breakeven_metrics_monotone:
  assumes "0 \<le> a" "a \<le> a'" "a' \<le> 100"
    and "0 \<le> v" "0 \<le> k" "0 \<le> n" "0 \<le> t" "0 \<le> c"
  shows "\<exists>r1 c1 r2 c2.
           calculate_threshold_metrics a v k n t c = Inr (r1, c1)
         \<and> calculate_threshold_metrics a' v k n t c = Inr (r2, c2)
         \<and> float_le c2 c1 \<and> float_le r1 r2"
proof -
  have e1: "calculate_threshold_metrics a v k n t c =
           Inr (calculate_breakeven_roas t c n (v * of_int k * (a / 100) * of_int n),
                calculate_breakeven_cpp t c n k a)"
    using assms by (intro calculate_threshold_metrics_eq) simp_all
  have e2: "calculate_threshold_metrics a' v k n t c =
           Inr (calculate_breakeven_roas t c n (v * of_int k * (a' / 100) * of_int n),
                calculate_breakeven_cpp t c n k a')"
    using assms by (intro calculate_threshold_metrics_eq) simp_all
  have "float_le (calculate_breakeven_cpp t c n k a') (calculate_breakeven_cpp t c n k a)"
    using assms by (intro breakeven_cpp_antimono) simp_all
  moreover have "float_le (calculate_breakeven_roas t c n (v * of_int k * (a / 100) * of_int n))
                   (calculate_breakeven_roas t c n (v * of_int k * (a' / 100) * of_int n))"
    using assms by (intro breakeven_roas_mono projected_revenue_mono) simp_all
  ultimately show ?thesis using e1 e2 by blast
qed

theorem breakeven_metrics_monotone_witness:
  "calculate_threshold_metrics 40 (125 / 4) 200 1 5000 1000 = Inr (Finite (5 / 12), Finite 75)
   \<and> calculate_threshold_metrics 50 (125 / 4) 200 1 5000 1000 = Inr (Finite (25 / 48), Finite 60)
   \<and> float_le (Finite 60) (Finite 75) \<and> float_le (Finite (5 / 12)) (Finite (25 / 48))"
  using breakeven_metrics_monotone [of 40 50 "125 / 4" 200 1 5000 1000]
  by (simp add: calculate_threshold_metrics_def calculate_projected_revenue_def
        calculate_breakeven_roas_def calculate_breakeven_cpp_def Let_def)

text \<open>
  The ratio of \<^verbatim>\<open>test_thresholds.py\<close>, total costs over revenue, is the one that does not
  rise with attendance; so does its CPP.
\<close>

lemma threshold_script_monotone:
  assumes "0 \<le> f + e" "0 \<le> k" "0 \<le> p" "0 \<le> q" "0 \<le> s" "s \<le> 100" "a \<le> a'"
  shows "float_le (fst (threshold_entry f e k p q s a')) (fst (threshold_entry f e k p q s a))
       \<and> float_le (snd (threshold_entry f e k p q s a')) (snd (threshold_entry f e k p q s a))"
proof -
  let ?w = "p * (s / 100) + q * (1 - s / 100)"
  let ?n = "\<lambda>x. real_of_int k * x / 100"
  have w: "0 \<le> ?w" using assms by simp
  have n: "?n a \<le> ?n a'" using assms by (simp add: mult_left_mono divide_right_mono)
  have rv: "?n a * ?w \<le> ?n a' * ?w" using n w by (rule mult_right_mono)
  have A: "float_le (fst (threshold_entry f e k p q s a')) (fst (threshold_entry f e k p q s a))"
  proof (cases "0 < ?n a * ?w")
    case True
    with rv have pos': "0 < ?n a' * ?w" by linarith
    have "(f + e) / (?n a' * ?w) \<le> (f + e) / (?n a * ?w)"
      by (rule divide_left_mono [OF rv assms(1)]) (use True pos' in simp)
    with True pos' show ?thesis by (simp add: threshold_entry_def Let_def)
  next
    case False
    then show ?thesis
      by (cases "0 < ?n a' * ?w") (simp_all add: threshold_entry_def Let_def)
  qed
  have B: "float_le (snd (threshold_entry f e k p q s a')) (snd (threshold_entry f e k p q s a))"
  proof (cases "0 < ?n a")
    case True
    with n have pos': "0 < ?n a'" by linarith
    have "(f + e) / ?n a' \<le> (f + e) / ?n a"
      by (rule divide_left_mono [OF n assms(1)]) (use True pos' in simp)
    with True pos' show ?thesis by (simp add: threshold_entry_def Let_def)
  next
    case False
    then show ?thesis
      by (cases "0 < ?n a'") (simp_all add: threshold_entry_def Let_def)
  qed
  from A B show ?thesis ..
qed

section \<open>Zero attendance\<close>

text \<open>
  At zero attendance the revenue is 0, and with costs of 6000 the break-even ROAS on that
  revenue is the finite value 0, not the infinity sentinel.
\<close>

theorem zero_attendance_roas_counterexample:
  "calculate_projected_revenue (125 / 4) 200 0 1 = Inr 0
   \<and> (5000::real) + 1000 * of_int 1 \<noteq> 0
   \<and> calculate_breakeven_roas 5000 1000 1 0 = Finite 0
   \<and> calculate_breakeven_roas 5000 1000 1 0 \<noteq> PosInf"
  by (simp add: calculate_projected_revenue_def calculate_breakeven_roas_def Let_def)

text \<open>
  C4, amended. For non-negative capacity and event count, the projected revenue at an
  attendance of 0 is 0; the break-even ROAS on that zero revenue is 0 whenever the costs
  \<open>total_fixed_costs + event_cost * events_per_month\<close> are positive, and the infinity sentinel
  when they are not (for non-negative costs: when they are zero).
\<close>

theorem zero_attendance:
  assumes "0 \<le> k" "0 \<le> n"
  shows "calculate_projected_revenue v k 0 n = Inr 0
       \<and> (0 < t + c * of_int n \<longrightarrow> calculate_breakeven_roas t c n 0 = Finite 0)
       \<and> (t + c * of_int n \<le> 0 \<longrightarrow> calculate_breakeven_roas t c n 0 = PosInf)"
  using assms by (simp add: calculate_projected_revenue_def calculate_breakeven_roas_def Let_def)

theorem zero_attendance_witness:
  "calculate_projected_revenue (125 / 4) 200 0 1 = Inr 0
   \<and> calculate_breakeven_roas 5000 1000 1 0 = Finite 0
   \<and> calculate_breakeven_roas 0 0 1 0 = PosInf"
  using zero_attendance [of 200 1 "125 / 4" 5000 1000] zero_attendance [of 200 1 "125 / 4" 0 0]
  by simp

section \<open>Capacity and event count\<close>

text \<open>
  A capacity of 0 or an event count of 0 passes every check: the functions return 0.
\<close>

theorem zero_capacity_accepted_counterexample:
  "calculate_total_fixed_costs 5000 0 = Inr 0
   \<and> calculate_projected_revenue 25 0 50 1 = Inr 0
   \<and> calculate_projected_revenue 25 200 50 0 = Inr 0"
  by (simp add: calculate_total_fixed_costs_def calculate_projected_revenue_def Let_def)

text \<open>
  C8, amended. The checks reject negative values only. With a negative event count
  \<^verbatim>\<open>calculate_total_fixed_costs\<close>, \<^verbatim>\<open>calculate_projected_revenue\<close> and
  \<^verbatim>\<open>calculate_projected_profit\<close> raise \<^verbatim>\<open>ValueError\<close>, and so does
  \<^verbatim>\<open>calculate_projected_revenue\<close> with a negative capacity. A capacity of 0 or an event count
  of 0 is accepted where the other arguments are valid, and gives total fixed costs 0 and
  revenue 0.
\<close>

theorem capacity_and_events_validation:
  "(n < 0 \<longrightarrow> (\<exists>msg. calculate_total_fixed_costs f n = Inl (ValueError msg)))
   \<and> (k < 0 \<or> n < 0 \<longrightarrow> (\<exists>msg. calculate_projected_revenue v k a n = Inl (ValueError msg)))
   \<and> (n < 0 \<longrightarrow> (\<exists>msg. calculate_projected_profit r t c n s = Inl (ValueError msg)))
   \<and> (0 \<le> f \<longrightarrow> calculate_total_fixed_costs f 0 = Inr 0)
   \<and> (0 \<le> a \<and> a \<le> 100 \<and> 0 \<le> n \<longrightarrow> calculate_projected_revenue v 0 a n = Inr 0)
   \<and> (0 \<le> a \<and> a \<le> 100 \<and> 0 \<le> k \<longrightarrow> calculate_projected_revenue v k a 0 = Inr 0)"
  by (auto simp add: calculate_total_fixed_costs_def calculate_projected_revenue_def
        calculate_projected_profit_def Let_def)

theorem capacity_and_events_validation_witness:
  "isl (calculate_total_fixed_costs 5000 (- 1))
   \<and> isl (calculate_projected_revenue 25 (- 200) 50 1)
   \<and> isl (calculate_projected_revenue 25 200 50 (- 1))
   \<and> isl (calculate_projected_profit 2500 5000 1000 (- 1) 0)
   \<and> calculate_total_fixed_costs 5000 0 = Inr 0
   \<and> calculate_projected_revenue 25 0 50 1 = Inr 0
   \<and> calculate_projected_revenue 25 200 50 0 = Inr 0"
  using capacity_and_events_validation
          [where n = 1 and k = "- 200" and f = 5000 and v = 25 and a = 50 and r = 2500
             and t = 5000 and c = 1000 and s = 0]
        capacity_and_events_validation
          [where n = "- 1" and k = 200 and f = 5000 and v = 25 and a = 50 and r = 2500
             and t = 5000 and c = 1000 and s = 0]
        capacity_and_events_validation
          [where n = 1 and k = 200 and f = 5000 and v = 25 and a = 50 and r = 2500
             and t = 5000 and c = 1000 and s = 0]
  by auto

section \<open>The threshold table\<close>

text \<open>
  What the loop computes when it runs: for non-negative capacity and event count, one row of
  cells per level, in the order of the list, from the metrics recomputed at that level.
\<close>

lemma threshold_loop_rows:
  assumes "\<forall>l \<in> set ls. 0 \<le> l \<and> l \<le> 100" "0 \<le> k" "0 \<le> n"
  shows "threshold_loop fd f2 ls v k n t c acc =
           Inr (acc @ map (\<lambda>l. threshold_cells fd f2 l
                                  (calculate_breakeven_roas t c n
                                     (v * of_int k * (of_int l / 100) * of_int n))
                                  (calculate_breakeven_cpp t c n k (of_int l))) ls)"
  using assms
proof (induction ls arbitrary: acc)
  case Nil
  then show ?case by simp
next
  case (Cons l ls)
  have "calculate_threshold_metrics (of_int l) v k n t c =
           Inr (calculate_breakeven_roas t c n (v * of_int k * (of_int l / 100) * of_int n),
                calculate_breakeven_cpp t c n k (of_int l))"
    using Cons.prems by (intro calculate_threshold_metrics_eq) simp_all
  then show ?case using Cons by simp
qed

text \<open>
  The block never gets that far. Whatever the inputs, it ends in an exception: the
  \<^verbatim>\<open>ValueError\<close> of the chain, or else the \<^verbatim>\<open>NameError\<close> of the banner.
\<close>

lemma calculation_block_raises:
  "calculation_block fd f2 fc ec pp pq s k n a ad ts =
     (case calculate_current_values fc ec pp pq s k n a ad of
        Inl e \<Rightarrow> Inl e
      | Inr m \<Rightarrow> Inl (NameError ''current_roas''))"
  by (simp add: calculation_block_def roas_note_def split: sum.splits)

text \<open>
  C7. The claim asks for a table of six rows, one per level 40 to 90 in ascending order, each
  recomputed at its level. On the scenario of C2, with any renderers, the block of the script
  ends with \<^verbatim>\<open>NameError\<close> for \<^verbatim>\<open>current_roas\<close> and hands no table to the display.
\<close>

theorem calculation_block_scenario:
  "calculation_block fd f2 5000 1000 25 50 75 200 1 40 0 0 = Inl (NameError ''current_roas'')"
  by (simp add: calculation_block_raises calculate_current_values_def
        calculate_avg_ticket_price_def calculate_total_fixed_costs_def
        calculate_projected_revenue_def calculate_projected_profit_def Let_def)

section \<open>The average price between the two prices\<close>

text \<open>Facts about the rounding: it is within half a unit in the last place.\<close>

lemma binade_eqI:
  assumes "2 powr of_int k \<le> \<bar>x\<bar>" "\<bar>x\<bar> < 2 powr of_int (k + 1)"
  shows "binade x = k"
proof -
  have "0 < (2::real) powr of_int k" by simp
  with assms(1) have pos: "0 < \<bar>x\<bar>" by linarith
  show ?thesis unfolding binade_def
    using assms floor_log_eq_powr_iff [of "\<bar>x\<bar>" 2 k] pos by simp
qed

lemma round_half_even_error: "\<bar>of_int (round_half_even y) - y\<bar> \<le> 1 / 2"
  unfolding round_half_even_def Let_def
  by (auto simp: abs_le_iff)

lemma binade_le:
  assumes "x \<noteq> 0"
  shows "2 powr of_int (binade x) \<le> \<bar>x\<bar>"
proof -
  have "of_int (binade x) \<le> log 2 \<bar>x\<bar>" unfolding binade_def by simp
  then have "2 powr of_int (binade x) \<le> 2 powr (log 2 \<bar>x\<bar>)" by simp
  also have "\<dots> = \<bar>x\<bar>" using assms by simp
  finally show ?thesis .
qed

lemma round_double_error: "\<bar>round_double x - x\<bar> \<le> \<bar>x\<bar> / 2 ^ 53"
proof (cases "x = 0")
  case True
  then show ?thesis by (simp add: round_double_def)
next
  case False
  define quantum :: real where "quantum = 2 powr of_int (binade x - 52)"
  have qpos: "0 < quantum" by (simp add: quantum_def)
  have rd: "round_double x = of_int (round_half_even (x / quantum)) * quantum"
    using False by (simp add: round_double_def quantum_def Let_def)
  have "round_double x - x = (of_int (round_half_even (x / quantum)) - x / quantum) * quantum"
    using qpos by (simp add: rd field_simps)
  then have "\<bar>round_double x - x\<bar>
               = \<bar>of_int (round_half_even (x / quantum)) - x / quantum\<bar> * quantum"
    using qpos by (simp add: abs_mult)
  also have "\<dots> \<le> (1 / 2) * quantum"
    using round_half_even_error qpos by (intro mult_right_mono) simp_all
  also have "\<dots> = 2 powr of_int (binade x) / 2 ^ 53"
  proof -
    have "quantum = 2 powr (of_int (binade x) - 52)" by (simp add: quantum_def)
    also have "\<dots> = 2 powr of_int (binade x) / 2 powr 52" by (simp add: powr_diff)
    finally show ?thesis by simp
  qed
  also have "\<dots> \<le> \<bar>x\<bar> / 2 ^ 53"
    using binade_le [OF False] by (simp add: divide_right_mono)
  finally show ?thesis .
qed

lemma round_double_upper:
  assumes "0 \<le> x"
  shows "round_double x \<le> x * (1 + 1 / 2 ^ 53)"
proof -
  have "round_double x - x \<le> x / 2 ^ 53"
    using round_double_error [of x] assms by linarith
  then have "round_double x \<le> x + x / 2 ^ 53" by linarith
  also have "x + x / 2 ^ 53 = x * (1 + 1 / 2 ^ 53)"
    by (simp only: distrib_left mult_1_right times_divide_eq_right)
  finally show ?thesis .
qed

lemma round_double_lower:
  assumes "0 \<le> x"
  shows "x * (1 - 1 / 2 ^ 53) \<le> round_double x"
proof -
  have "- (x / 2 ^ 53) \<le> round_double x - x"
    using round_double_error [of x] assms by linarith
  then have "x - x / 2 ^ 53 \<le> round_double x" by linarith
  moreover have "x - x / 2 ^ 53 = x * (1 - 1 / 2 ^ 53)"
    by (simp only: right_diff_distrib mult_1_right times_divide_eq_right)
  ultimately show ?thesis by simp
qed

lemma round_double_le:
  assumes "0 \<le> x" "x \<le> b"
  shows "round_double x \<le> b * (1 + 1 / 2 ^ 53)"
proof -
  have "round_double x \<le> x * (1 + 1 / 2 ^ 53)" using assms(1) by (rule round_double_upper)
  also have "\<dots> \<le> b * (1 + 1 / 2 ^ 53)" using assms(2) by (intro mult_right_mono) simp_all
  finally show ?thesis .
qed

lemma round_double_ge:
  assumes "0 \<le> b" "b \<le> x"
  shows "b * (1 - 1 / 2 ^ 53) \<le> round_double x"
proof -
  have "0 \<le> x" using assms by linarith
  have "b * (1 - 1 / 2 ^ 53) \<le> x * (1 - 1 / 2 ^ 53)"
    using assms(2) by (intro mult_right_mono) simp_all
  also have "\<dots> \<le> round_double x" using \<open>0 \<le> x\<close> by (rule round_double_lower)
  finally show ?thesis .
qed

lemma round_double_nonneg:
  assumes "0 \<le> x"
  shows "0 \<le> round_double x"
  using round_double_ge [of 0 x] assms by simp

text \<open>Evaluating the rounding of a number whose binade is known.\<close>

lemma round_double_eval:
  assumes "2 powr of_int k \<le> \<bar>x\<bar>" "\<bar>x\<bar> < 2 powr of_int (k + 1)"
  shows "round_double x
           = of_int (round_half_even (x / 2 powr of_int (k - 52))) * 2 powr of_int (k - 52)"
proof -
  have "0 < (2::real) powr of_int k" by simp
  with assms(1) have "x \<noteq> 0" by auto
  then show ?thesis using binade_eqI [OF assms] by (simp add: round_double_def Let_def)
qed

text \<open>
  The double nearest to 13.44 is \<open>7566047373982433 / 2 ^ 49\<close>. With both prices at that value
  and a sales mix of 97, the six operations give in turn the values below, and the sum is one
  unit in the last place above the price: Python prints 13.440000000000001.
\<close>

lemma double_13_44: "round_double (1344 / 100) = 7566047373982433 / 562949953421312"
  by (subst round_double_eval [where k = 3])
     (simp_all add: round_half_even_def Let_def powr_neg_numeral)

lemma step_mul_97:
  "round_double (7566047373982433 / 562949953421312 * 97) = 5733645275596063 / 4398046511104"
  by (subst round_double_eval [where k = 10])
     (simp_all add: round_half_even_def Let_def powr_neg_numeral)

lemma step_div_100_pre:
  "round_double (5733645275596063 / 4398046511104 / 100) = 7339065952762961 / 562949953421312"
  by (subst round_double_eval [where k = 3])
     (simp_all add: round_half_even_def Let_def powr_neg_numeral)

lemma step_sub: "round_double (100 - 97) = 3"
  by (subst round_double_eval [where k = 1])
     (simp_all add: round_half_even_def Let_def powr_neg_numeral)

lemma step_mul_3:
  "round_double (7566047373982433 / 562949953421312 * 3) = 5674535530486825 / 140737488355328"
  by (subst round_double_eval [where k = 5])
     (simp_all add: round_half_even_def Let_def powr_neg_numeral)

lemma step_div_100_post:
  "round_double (5674535530486825 / 140737488355328 / 100)
     = 7263405479023136 / 18014398509481984"
  by (subst round_double_eval [where k = "- 2"])
     (simp_all add: round_half_even_def Let_def powr_neg_numeral)

lemma step_add:
  "round_double (7339065952762961 / 562949953421312 + 7263405479023136 / 18014398509481984)
     = 7566047373982434 / 562949953421312"
  by (subst round_double_eval [where k = 3])
     (simp_all add: round_half_even_def Let_def powr_neg_numeral)

lemma avg_ticket_price_double_example:
  "calculate_avg_ticket_price_double (7566047373982433 / 562949953421312)
       (7566047373982433 / 562949953421312) 97
     = Inr (7566047373982434 / 562949953421312)"
  by (simp only: calculate_avg_ticket_price_double_def Let_def step_sub step_mul_97
        step_div_100_pre step_mul_3 step_div_100_post step_add) simp

text \<open>
  With both prices 13.44 (as a double) and a sales mix of 97, the returned average is above
  the larger of the two prices.
\<close>

theorem avg_ticket_price_above_max_counterexample:
  "round_double (1344 / 100) = 7566047373982433 / 562949953421312
   \<and> calculate_avg_ticket_price_double (7566047373982433 / 562949953421312)
         (7566047373982433 / 562949953421312) 97
       = Inr (7566047373982434 / 562949953421312)
   \<and> max (7566047373982433 / 562949953421312 :: real) (7566047373982433 / 562949953421312)
       < 7566047373982434 / 562949953421312"
  using double_13_44 avg_ticket_price_double_example by simp

text \<open>The exact weighted mean of two numbers lies between them.\<close>

lemma convex_combination_between:
  fixes p q s :: real
  assumes "0 \<le> s" "s \<le> 100"
  shows "min p q \<le> p * s / 100 + q * (100 - s) / 100"
    and "p * s / 100 + q * (100 - s) / 100 \<le> max p q"
proof -
  let ?v = "p * s / 100 + q * (100 - s) / 100"
  have d1: "?v - p = (q - p) * ((100 - s) / 100)" by (simp add: field_simps)
  have d2: "?v - q = (p - q) * (s / 100)" by (simp add: field_simps)
  have w1: "0 \<le> (100 - s) / 100" and w2: "0 \<le> s / 100" using assms by simp_all
  have "min p q \<le> ?v \<and> ?v \<le> max p q"
  proof (cases "p \<le> q")
    case True
    then have "0 \<le> ?v - p" unfolding d1 using w1 by (simp add: mult_nonneg_nonneg)
    moreover from True have "?v - q \<le> 0" unfolding d2 using w2
      by (simp add: mult_nonpos_nonneg)
    ultimately show ?thesis using True by (simp add: min_def max_def)
  next
    case False
    then have "?v - p \<le> 0" unfolding d1 using w1 by (simp add: mult_nonpos_nonneg)
    moreover from False have "0 \<le> ?v - q" unfolding d2 using w2
      by (simp add: mult_nonneg_nonneg)
    ultimately show ?thesis using False by (simp add: min_def max_def)
  qed
  then show "min p q \<le> ?v" and "?v \<le> max p q" by simp_all
qed

text \<open>
  C9, amended. For non-negative prices and a sales mix between 0 and 100, the average price
  returned in double precision lies between \<open>min pre post * (1 - 2^-53)^4\<close> and
  \<open>max pre post * (1 + 2^-53)^4\<close>: between the two prices up to the rounding of the operations
  on the way, at most four on each path (no overflow or underflow).
\<close>

theorem avg_ticket_price_double_between:
  assumes "0 \<le> p" "0 \<le> q" "0 \<le> s" "s \<le> 100"
  shows "\<exists>v. calculate_avg_ticket_price_double p q s = Inr v
           \<and> min p q * (1 - 1 / 2 ^ 53) ^ 4 \<le> v
           \<and> v \<le> max p q * (1 + 1 / 2 ^ 53) ^ 4"
proof -
  define U :: real where "U = 1 + 1 / 2 ^ 53"
  define L :: real where "L = 1 - 1 / 2 ^ 53"
  have U1: "1 \<le> U" and U0: "0 \<le> U" by (simp_all add: U_def)
  have L1: "L \<le> 1" and L0: "0 \<le> L" by (simp_all add: L_def)
  have up: "round_double x \<le> b * U" if "0 \<le> x" "x \<le> b" for x b
    using round_double_le [OF that] by (simp add: U_def)
  have lo: "b * L \<le> round_double x" if "0 \<le> b" "b \<le> x" for x b
    using round_double_ge [OF that] by (simp add: L_def)
  define s' where "s' = round_double (100 - s)"
  define a1 where "a1 = round_double (p * s)"
  define t1 where "t1 = round_double (a1 / 100)"
  define a2 where "a2 = round_double (q * s')"
  define t2 where "t2 = round_double (a2 / 100)"
  define v where "v = round_double (t1 + t2)"
  have eq: "calculate_avg_ticket_price_double p q s = Inr v"
    using assms
    by (simp add: calculate_avg_ticket_price_double_def Let_def
          v_def t1_def t2_def a1_def a2_def s'_def)
  have ps0: "0 \<le> p * s" using assms by simp
  have r0: "0 \<le> 100 - s" using assms by simp
  have s'0: "0 \<le> s'" unfolding s'_def using r0 by (rule round_double_nonneg)
  have qs'0: "0 \<le> q * s'" using assms s'0 by simp
  have a10: "0 \<le> a1" unfolding a1_def using ps0 by (rule round_double_nonneg)
  have a20: "0 \<le> a2" unfolding a2_def using qs'0 by (rule round_double_nonneg)
  have t10: "0 \<le> t1" unfolding t1_def using a10 by (intro round_double_nonneg) simp
  have t20: "0 \<le> t2" unfolding t2_def using a20 by (intro round_double_nonneg) simp
  let ?e1 = "p * s / 100" and ?e2 = "q * (100 - s) / 100"
  have e10: "0 \<le> ?e1" and e20: "0 \<le> ?e2" using assms by simp_all
  \<comment> \<open>from above\<close>
  have "a1 \<le> p * s * U" unfolding a1_def using ps0 by (intro up) simp_all
  then have "a1 / 100 \<le> ?e1 * U" by simp
  then have t1U: "t1 \<le> ?e1 * U * U" unfolding t1_def using a10 by (intro up) simp_all
  have "?e1 * U * U * 1 \<le> ?e1 * U * U * U"
    using e10 U0 U1 by (intro mult_left_mono mult_nonneg_nonneg)
  with t1U have t1U': "t1 \<le> ?e1 * U * U * U" by simp
  have "s' \<le> (100 - s) * U" unfolding s'_def using r0 by (intro up) simp_all
  then have "q * s' \<le> q * ((100 - s) * U)" using assms(2) by (rule mult_left_mono)
  then have "a2 \<le> q * ((100 - s) * U) * U" unfolding a2_def using qs'0 by (intro up)
  then have "a2 / 100 \<le> ?e2 * U * U" by (simp add: mult.assoc)
  then have t2U: "t2 \<le> ?e2 * U * U * U" unfolding t2_def using a20 by (intro up) simp_all
  have "t1 + t2 \<le> (?e1 + ?e2) * U * U * U"
    using t1U' t2U by (simp add: distrib_right)
  also have "\<dots> \<le> max p q * U * U * U"
    using convex_combination_between(2) [OF assms(3,4), of p q] U0
    by (intro mult_right_mono) simp_all
  finally have "t1 + t2 \<le> max p q * U * U * U" .
  then have "v \<le> max p q * U * U * U * U"
    unfolding v_def using t10 t20 by (intro up) simp_all
  then have upper: "v \<le> max p q * U ^ 4" by (simp add: power4_eq_xxxx mult.assoc)
  \<comment> \<open>from below\<close>
  have "p * s * L \<le> a1" unfolding a1_def using ps0 by (intro lo) simp_all
  then have "?e1 * L \<le> a1 / 100" by simp
  moreover have "0 \<le> ?e1 * L" using e10 L0 by simp
  ultimately have t1L: "?e1 * L * L \<le> t1" unfolding t1_def by (intro lo)
  have "?e1 * L * L * L \<le> ?e1 * L * L * 1"
    using e10 L0 L1 by (intro mult_left_mono mult_nonneg_nonneg)
  with t1L have t1L': "?e1 * L * L * L \<le> t1" by simp
  have "(100 - s) * L \<le> s'" unfolding s'_def using r0 by (intro lo) simp_all
  then have "q * ((100 - s) * L) \<le> q * s'" using assms(2) by (rule mult_left_mono)
  moreover have "0 \<le> q * ((100 - s) * L)" using assms(2) r0 L0 by simp
  ultimately have "q * ((100 - s) * L) * L \<le> a2" unfolding a2_def by (intro lo)
  then have "?e2 * L * L \<le> a2 / 100" by (simp add: mult.assoc)
  moreover have "0 \<le> ?e2 * L * L" using e20 L0 by simp
  ultimately have t2L: "?e2 * L * L * L \<le> t2" unfolding t2_def by (intro lo)
  have "min p q * L * L * L \<le> (?e1 + ?e2) * L * L * L"
    using convex_combination_between(1) [OF assms(3,4), of p q] L0
    by (intro mult_right_mono) simp_all
  also have "\<dots> \<le> t1 + t2" using t1L' t2L by (simp add: distrib_right)
  finally have "min p q * L * L * L \<le> t1 + t2" .
  moreover have "0 \<le> min p q * L * L * L" using assms(1,2) L0 by simp
  ultimately have "min p q * L * L * L * L \<le> v" unfolding v_def by (intro lo)
  then have lower: "min p q * L ^ 4 \<le> v" by (simp add: power4_eq_xxxx mult.assoc)
  from eq lower upper show ?thesis unfolding U_def L_def by blast
qed

theorem avg_ticket_price_double_between_witness:
  "calculate_avg_ticket_price_double (7566047373982433 / 562949953421312)
       (7566047373982433 / 562949953421312) 97
     = Inr (7566047373982434 / 562949953421312)
   \<and> min (7566047373982433 / 562949953421312 :: real) (7566047373982433 / 562949953421312)
         * (1 - 1 / 2 ^ 53) ^ 4
       \<le> 7566047373982434 / 562949953421312
   \<and> (7566047373982434 / 562949953421312 :: real)
       \<le> max (7566047373982433 / 562949953421312) (7566047373982433 / 562949953421312)
           * (1 + 1 / 2 ^ 53) ^ 4"
proof -
  let ?P = "7566047373982433 / 562949953421312 :: real"
  let ?V = "7566047373982434 / 562949953421312 :: real"
  have "\<exists>v. calculate_avg_ticket_price_double ?P ?P 97 = Inr v
           \<and> min ?P ?P * (1 - 1 / 2 ^ 53) ^ 4 \<le> v
           \<and> v \<le> max ?P ?P * (1 + 1 / 2 ^ 53) ^ 4"
    by (rule avg_ticket_price_double_between) simp_all
  then obtain v where e: "calculate_avg_ticket_price_double ?P ?P 97 = Inr v"
    and b: "min ?P ?P * (1 - 1 / 2 ^ 53) ^ 4 \<le> v" "v \<le> max ?P ?P * (1 + 1 / 2 ^ 53) ^ 4"
    by blast
  from e have "Inr ?V = (Inr v :: error + real)"
    by (simp only: avg_ticket_price_double_example)
  then have "v = ?V" by (simp only: sum.inject)
  with b e show ?thesis by blast
qed

section \<open>Saving a scenario\<close>



end
